theory Spec2Isabelle
  imports Main "HOL-Library.Multiset"
begin

section \<open>Python values\<close>

text \<open>
  The values that \<open>json.loads\<close> and \<open>response.json()\<close> produce: \<open>None\<close>, booleans,
  integers (unbounded), floats, strings, lists and dictionaries with string keys.
  A dictionary is an association list in insertion order; Python dictionaries have
  distinct keys. The representation of floats is left open (the type parameter \<open>'f\<close>):
  no definition below computes with a float. Strings are lists of characters with code
  points below 256.
\<close>

datatype 'f json =
    JNull
  | JBool bool
  | JInt int
  | JFloat 'f
  | JStr string
  | JArr "'f json list"
  | JObj "(string \<times> 'f json) list"

text \<open>\<open>type(x).__name__\<close>, as it appears in the text of an \<open>AttributeError\<close>.\<close>

fun type_name :: "'f json \<Rightarrow> string" where
  "type_name JNull = ''NoneType''"
| "type_name (JBool b) = ''bool''"
| "type_name (JInt n) = ''int''"
| "type_name (JFloat x) = ''float''"
| "type_name (JStr s) = ''str''"
| "type_name (JArr xs) = ''list''"
| "type_name (JObj kvs) = ''dict''"

text \<open>
  The exceptions that leave a function of the program uncaught.
  \<open>OpenRouterError m\<close> is the plain \<open>Exception(m)\<close> raised by its \<open>except\<close> clause;
  \<open>KeyError k\<close> carries the missing key; the text of a \<open>TypeError\<close> is not recorded.
  \<open>OverflowError\<close> is raised when an integer is too large to convert to a float.
\<close>

datatype py_error =
    OpenRouterError string
  | ValueError string
  | TypeError
  | KeyError string
  | IndexError
  | OverflowError

definition then_do :: "'e + 'a \<Rightarrow> ('a \<Rightarrow> 'e + 'b) \<Rightarrow> 'e + 'b" where
  "then_do r f = (case r of Inl e \<Rightarrow> Inl e | Inr x \<Rightarrow> f x)"

text \<open>\<open>p in s\<close> for two strings: \<open>p\<close> occurs in \<open>s\<close> as a contiguous run.\<close>

fun is_substring :: "string \<Rightarrow> string \<Rightarrow> bool" where
  "is_substring p [] = (p = [])"
| "is_substring p (c # cs) = (take (length p) (c # cs) = p \<or> is_substring p cs)"

text \<open>\<open>key in x\<close> for a string \<open>key\<close>.\<close>

fun py_contains :: "string \<Rightarrow> 'f json \<Rightarrow> py_error + bool" where
  "py_contains key (JObj kvs) = Inr (key \<in> set (map fst kvs))"
| "py_contains key (JArr xs) = Inr (JStr key \<in> set xs)"
| "py_contains key (JStr s) = Inr (is_substring key s)"
| "py_contains key _ = Inl TypeError"

text \<open>\<open>x[key]\<close> for a string \<open>key\<close>.\<close>

fun py_getitem :: "string \<Rightarrow> 'f json \<Rightarrow> py_error + 'f json" where
  "py_getitem key (JObj kvs) =
     (case map_of kvs key of None \<Rightarrow> Inl (KeyError key) | Some v \<Rightarrow> Inr v)"
| "py_getitem key _ = Inl TypeError"

text \<open>\<open>len(x)\<close>.\<close>

fun py_len :: "'f json \<Rightarrow> py_error + nat" where
  "py_len (JObj kvs) = Inr (length kvs)"
| "py_len (JArr xs) = Inr (length xs)"
| "py_len (JStr s) = Inr (length s)"
| "py_len _ = Inl TypeError"

text \<open>\<open>x[0]\<close>. The keys of a parsed dictionary are strings, so \<open>0\<close> is never one.\<close>

fun py_first :: "'f json \<Rightarrow> py_error + 'f json" where
  "py_first (JArr xs) = (case xs of [] \<Rightarrow> Inl IndexError | x # _ \<Rightarrow> Inr x)"
| "py_first (JStr s) = (case s of [] \<Rightarrow> Inl IndexError | c # _ \<Rightarrow> Inr (JStr [c]))"
| "py_first (JObj kvs) = Inl (KeyError ''0'')"
| "py_first _ = Inl TypeError"

section \<open>The remote completion client\<close>

record 'f message =
  role :: string
  content :: "'f json"

text \<open>A decimal literal of the source: \<open>Decimal m e\<close> stands for \<open>m / 10 ^ e\<close> as written.\<close>

datatype decimal = Decimal int nat

record 'f request =
  url :: string
  headers :: "(string \<times> string) list"
  payload_model :: string
  payload_messages :: "'f message list"
  payload_temperature :: decimal
  timeout :: nat

text \<open>
  What the three calls \<open>requests.post\<close>, \<open>response.raise_for_status()\<close> and
  \<open>response.json()\<close> of the client come to: the first raises on a transport failure
  (connection, timeout), the second raises \<open>HTTPError\<close> on a status that is not a
  success, the third raises the library's \<open>JSONDecodeError\<close> on a body that is not JSON
  (all three are \<open>requests.exceptions.RequestException\<close>; the string is \<open>str(e)\<close>), or
  the body is decoded.
\<close>

datatype 'f http_result =
    TransportFailure string
  | StatusFailure string
  | BodyFailure string
  | Body "'f json"

definition extract_content :: "'f json \<Rightarrow> py_error + 'f json" where
  "extract_content result =
     then_do (py_contains ''choices'' result) (\<lambda>has_choices.
       if has_choices then
         then_do (py_getitem ''choices'' result) (\<lambda>choices.
         then_do (py_len choices) (\<lambda>n.
           if n > 0 then
             then_do (py_first choices) (\<lambda>choice.
             then_do (py_getitem ''message'' choice) (\<lambda>msg.
               py_getitem ''content'' msg))
           else Inl (ValueError ''Unexpected API response format'')))
       else Inl (ValueError ''Unexpected API response format''))"

text \<open>The request of the client: the URL, the headers, the JSON payload and the timeout.\<close>

definition openrouter_request :: "string \<Rightarrow> string \<Rightarrow> 'f message list \<Rightarrow> decimal \<Rightarrow> 'f request" where
  "openrouter_request api_key_arg model_arg messages temperature_arg =
     \<lparr> url = ''https://openrouter.ai/api/v1/chat/completions'',
       headers = [(''Authorization'', ''Bearer '' @ api_key_arg),
                  (''Content-Type'', ''application/json''),
                  (''HTTP-Referer'', ''http://localhost:8501'')],
       payload_model = model_arg,
       payload_messages = messages,
       payload_temperature = temperature_arg,
       timeout = 30 \<rparr>"

definition get_response_from_messages_openrouter ::
  "('f request \<Rightarrow> 'f http_result) \<Rightarrow> string \<Rightarrow> string \<Rightarrow> 'f message list \<Rightarrow> decimal
     \<Rightarrow> py_error + 'f json" where
  "get_response_from_messages_openrouter post api_key_arg model_arg messages temperature_arg =
     (case post (openrouter_request api_key_arg model_arg messages temperature_arg) of
        TransportFailure e \<Rightarrow> Inl (OpenRouterError (''OpenRouter API error: '' @ e))
      | StatusFailure e \<Rightarrow> Inl (OpenRouterError (''OpenRouter API error: '' @ e))
      | BodyFailure e \<Rightarrow> Inl (OpenRouterError (''OpenRouter API error: '' @ e))
      | Body result \<Rightarrow> extract_content result)"

section \<open>The order state engine\<close>

text \<open>A price of the menu: a Python number, an integer or a float.\<close>

datatype 'f number = PyInt int | PyFloat 'f

record 'f assistant =
  api_key :: string
  model :: string
  menu :: "(string \<times> 'f number) list"
  current_order :: "(string \<times> 'f json) list"
  history :: "'f message list"

text \<open>
  The menu is the dictionary handed to the constructor, from item names to numeric
  prices (integers in the application's \<open>DEFAULT_MENU\<close>). The order holds whatever
  values the model's reply gave.
\<close>

definition DriveThroughAssistant ::
  "string \<Rightarrow> string \<Rightarrow> (string \<times> 'f number) list \<Rightarrow> 'f assistant" where
  "DriveThroughAssistant api_key_arg model_arg menu_arg =
     \<lparr> api_key = api_key_arg, model = model_arg, menu = menu_arg,
       current_order = [], history = [] \<rparr>"

text \<open>
  What \<open>json.loads\<close> raises on a string: \<open>json.JSONDecodeError\<close>, or some other
  exception with its text (a \<open>RecursionError\<close> on deep nesting).
\<close>

datatype loads_error = JSONDecodeError | OtherException string

text \<open>
  The surroundings of a turn: the HTTP endpoint, the standard library's JSON parser, and
  the text of the f-string in \<open>get_system_prompt\<close> as a function of the menu and the
  order it embeds (only the remote model reads it).
\<close>

record 'f world =
  http_post :: "'f request \<Rightarrow> 'f http_result"
  json_loads :: "string \<Rightarrow> loads_error + 'f json"
  prompt_text :: "(string \<times> 'f number) list \<Rightarrow> (string \<times> 'f json) list \<Rightarrow> string"

definition get_system_prompt :: "'f world \<Rightarrow> 'f assistant \<Rightarrow> string" where
  "get_system_prompt w s = prompt_text w (menu s) (current_order s)"

text \<open>\<open>s.replace(old, "")\<close>: the occurrences of \<open>old\<close> are removed from left to right.\<close>

fun remove_all :: "string \<Rightarrow> string \<Rightarrow> string" where
  "remove_all [] s = s"
| "remove_all (p # ps) [] = []"
| "remove_all (p # ps) (c # cs) =
     (if take (Suc (length ps)) (c # cs) = p # ps
      then remove_all (p # ps) (drop (length ps) cs)
      else c # remove_all (p # ps) cs)"

text \<open>\<open>str.isspace\<close> on the code points below 256.\<close>

definition is_space :: "char \<Rightarrow> bool" where
  "is_space c =
     (let n = (of_char c :: nat)
      in (9 \<le> n \<and> n \<le> 13) \<or> (28 \<le> n \<and> n \<le> 32) \<or> n = 133 \<or> n = 160)"

definition py_strip :: "string \<Rightarrow> string" where
  "py_strip s = rev (dropWhile is_space (rev (dropWhile is_space s)))"

definition clean_text :: "string \<Rightarrow> string" where
  "clean_text response_text = py_strip (remove_all ''```'' (remove_all ''```json'' response_text))"

text \<open>\<open>xs[-n:]\<close> for a positive \<open>n\<close>.\<close>

definition last_n :: "nat \<Rightarrow> 'a list \<Rightarrow> 'a list" where
  "last_n n xs = drop (length xs - n) xs"

text \<open>The text of the \<open>AttributeError\<close> for \<open>x.attr\<close>.\<close>

definition no_attribute :: "'f json \<Rightarrow> string \<Rightarrow> string" where
  "no_attribute x attr =
     [CHR 0x27] @ type_name x @ [CHR 0x27] @ '' object has no attribute ''
       @ [CHR 0x27] @ attr @ [CHR 0x27]"

text \<open>
  Lines 129 to 141: the display message and the new order state taken from the parsed
  reply.
\<close>

definition extract_message_and_order :: "'f json \<Rightarrow> 'f json \<times> 'f json" where
  "extract_message_and_order response_data =
     (case response_data of
        JObj kvs \<Rightarrow>
          ((case map_of kvs ''message'' of Some m \<Rightarrow> m | None \<Rightarrow> JStr ''Order updated.''),
           (case map_of kvs ''order'' of Some ord \<Rightarrow> ord | None \<Rightarrow> response_data))
      | _ \<Rightarrow> (JStr ''Order updated.'', response_data))"

text \<open>The dictionary comprehension of line 144, on the items of a dictionary.\<close>

definition validate_order :: "(string \<times> 'p) list \<Rightarrow> (string \<times> 'v) list \<Rightarrow> (string \<times> 'v) list" where
  "validate_order mn items = filter (\<lambda>(k, v). k \<in> set (map fst mn)) items"

text \<open>The two \<open>except\<close> clauses: what is printed, appended and returned.\<close>

definition json_decode_handler ::
  "'f assistant \<Rightarrow> string
     \<Rightarrow> 'f assistant \<times> string list \<times> (py_error + (string \<times> 'f json) list \<times> 'f json)" where
  "json_decode_handler s response_text =
     (let s' = s\<lparr>history := history s @
                 [\<lparr> role = ''assistant'',
                    content = JStr ''Sorry, I had trouble processing that. Please try again.'' \<rparr>]\<rparr>
      in (s',
          [''Error: LLM did not output valid JSON.'', ''Raw output: '' @ response_text],
          Inr (current_order s',
               JStr ''Sorry, I had trouble processing that. Please try again.'')))"

definition exception_handler ::
  "'f assistant \<Rightarrow> string
     \<Rightarrow> 'f assistant \<times> string list \<times> (py_error + (string \<times> 'f json) list \<times> 'f json)" where
  "exception_handler s e =
     (let s' = s\<lparr>history := history s @
                 [\<lparr> role = ''assistant'',
                    content = JStr ''Sorry, I encountered an error. Please try again.'' \<rparr>]\<rparr>
      in (s',
          [''Error processing message: '' @ e],
          Inr (current_order s', JStr ''Sorry, I encountered an error. Please try again.'')))"

text \<open>Steps 1 to 3: the user entry is appended, the request assembled, the model called.\<close>

definition append_user :: "string \<Rightarrow> 'f assistant \<Rightarrow> 'f assistant" where
  "append_user user_input s =
     s\<lparr>history := history s @ [\<lparr> role = ''user'', content = JStr user_input \<rparr>]\<rparr>"

definition call_model :: "'f world \<Rightarrow> 'f assistant \<Rightarrow> py_error + 'f json" where
  "call_model w s =
     get_response_from_messages_openrouter (http_post w) (api_key s) (model s)
       (\<lparr> role = ''system'', content = JStr (get_system_prompt w s) \<rparr> # last_n 3 (history s))
       (Decimal 1 1)"

text \<open>
  A turn returns the assistant after it, the lines printed, and either the exception that
  reached the caller or the returned pair. An exception of the model call is not caught:
  it is raised after the user entry was appended.
\<close>

definition process_user_message ::
  "'f world \<Rightarrow> string \<Rightarrow> 'f assistant
     \<Rightarrow> 'f assistant \<times> string list \<times> (py_error + (string \<times> 'f json) list \<times> 'f json)" where
  "process_user_message w user_input s =
     (let s1 = append_user user_input s
      in case call_model w s1 of
           Inl e \<Rightarrow> (s1, [], Inl e)
         | Inr response \<Rightarrow>
             (case response of
                JStr response_text \<Rightarrow>
                  (case json_loads w (clean_text response_text) of
                     Inl JSONDecodeError \<Rightarrow> json_decode_handler s1 response_text
                   | Inl (OtherException e) \<Rightarrow> exception_handler s1 e
                   | Inr response_data \<Rightarrow>
                       (case extract_message_and_order response_data of
                          (ai_message, new_order_state) \<Rightarrow>
                            (case new_order_state of
                               JObj items \<Rightarrow>
                                 (let s2 = s1\<lparr>current_order := validate_order (menu s1) items\<rparr>;
                                      s3 = s2\<lparr>history := history s2 @
                                             [\<lparr> role = ''assistant'', content = ai_message \<rparr>]\<rparr>
                                  in (s3, [], Inr (current_order s3, ai_message)))
                             | _ \<Rightarrow> exception_handler s1 (no_attribute new_order_state ''items''))))
              | _ \<Rightarrow> exception_handler s1 (no_attribute response ''replace'')))"

text \<open>
  \<open>calculate_total\<close>. The values of floats are not represented, so a product or a running
  total is an integer, or some float (\<open>FloatProduct\<close>, \<open>Floating\<close>), or, for a product,
  a repeated string or list. What is represented is which of these each step gives and
  which exception it raises.
\<close>

datatype product = IntProduct int | FloatProduct | SequenceProduct

datatype total = IntTotal int | Floating

text \<open>
  An integer converts to a float when it rounds to a finite double: its magnitude is
  below \<open>2 ^ 1024 - 2 ^ 970\<close>. Otherwise the conversion raises \<open>OverflowError\<close>.
\<close>

definition float_convertible :: "int \<Rightarrow> bool" where
  "float_convertible n = (\<bar>n\<bar> < 2 ^ 1024 - 2 ^ 970)"

text \<open>\<open>self.menu.get(item, 0)\<close>.\<close>

definition menu_get :: "(string \<times> 'f number) list \<Rightarrow> string \<Rightarrow> 'f number" where
  "menu_get mn item = (case map_of mn item of None \<Rightarrow> PyInt 0 | Some p \<Rightarrow> p)"

text \<open>
  \<open>price * qty\<close>. Integers (a boolean is the integer 1 or 0) multiply exactly; with a
  float on one side the integer on the other side is converted first; an integer times a
  string or a list repeats it (the repetition is taken to succeed: the count fits an
  index and the memory suffices); every other pair of operands raises \<open>TypeError\<close>.
\<close>

fun py_multiply :: "'f number \<Rightarrow> 'f json \<Rightarrow> py_error + product" where
  "py_multiply (PyInt p) (JInt n) = Inr (IntProduct (p * n))"
| "py_multiply (PyInt p) (JBool b) = Inr (IntProduct (p * (if b then 1 else 0)))"
| "py_multiply (PyInt p) (JFloat x) =
     (if float_convertible p then Inr FloatProduct else Inl OverflowError)"
| "py_multiply (PyInt p) (JStr s) = Inr SequenceProduct"
| "py_multiply (PyInt p) (JArr xs) = Inr SequenceProduct"
| "py_multiply (PyInt p) JNull = Inl TypeError"
| "py_multiply (PyInt p) (JObj kvs) = Inl TypeError"
| "py_multiply (PyFloat f) (JInt n) =
     (if float_convertible n then Inr FloatProduct else Inl OverflowError)"
| "py_multiply (PyFloat f) (JBool b) = Inr FloatProduct"
| "py_multiply (PyFloat f) (JFloat x) = Inr FloatProduct"
| "py_multiply (PyFloat f) (JStr s) = Inl TypeError"
| "py_multiply (PyFloat f) (JArr xs) = Inl TypeError"
| "py_multiply (PyFloat f) JNull = Inl TypeError"
| "py_multiply (PyFloat f) (JObj kvs) = Inl TypeError"

text \<open>
  \<open>total += product\<close>. Two integers add exactly; an integer met by a float is converted
  first; a string or a list cannot be added to a number.
\<close>

fun py_add :: "total \<Rightarrow> product \<Rightarrow> py_error + total" where
  "py_add (IntTotal t) (IntProduct k) = Inr (IntTotal (t + k))"
| "py_add (IntTotal t) FloatProduct =
     (if float_convertible t then Inr Floating else Inl OverflowError)"
| "py_add Floating (IntProduct k) =
     (if float_convertible k then Inr Floating else Inl OverflowError)"
| "py_add Floating FloatProduct = Inr Floating"
| "py_add running SequenceProduct = Inl TypeError"

fun calculate_total_loop ::
  "(string \<times> 'f number) list \<Rightarrow> total \<Rightarrow> (string \<times> 'f json) list \<Rightarrow> py_error + total" where
  "calculate_total_loop mn running [] = Inr running"
| "calculate_total_loop mn running ((item, qty) # rest) =
     (let price = menu_get mn item
      in case py_multiply price qty of
           Inl e \<Rightarrow> Inl e
         | Inr line \<Rightarrow>
             (case py_add running line of
                Inl e \<Rightarrow> Inl e
              | Inr running' \<Rightarrow> calculate_total_loop mn running' rest))"

definition calculate_total :: "'f assistant \<Rightarrow> py_error + total" where
  "calculate_total s = calculate_total_loop (menu s) (IntTotal 0) (current_order s)"

text \<open>
  \<open>isinstance(qty, int)\<close> and, for such a quantity, its integer value (a boolean is an
  integer in Python: 1 or 0).
\<close>

fun isinstance_int :: "'f json \<Rightarrow> bool" where
  "isinstance_int (JInt n) = True"
| "isinstance_int (JBool b) = True"
| "isinstance_int _ = False"

fun int_value :: "'f json \<Rightarrow> int" where
  "int_value (JInt n) = n"
| "int_value (JBool b) = (if b then 1 else 0)"
| "int_value _ = 0"

definition clear_order :: "'f assistant \<Rightarrow> 'f assistant" where
  "clear_order s = s\<lparr>current_order := [], history := []\<rparr>"

text \<open>The calls a caller can make on an instance, and the state after a sequence of them.\<close>

datatype 'f call = ProcessUserMessage "'f world" string | ClearOrder

fun run_call :: "'f assistant \<Rightarrow> 'f call \<Rightarrow> 'f assistant" where
  "run_call s (ProcessUserMessage w user_input) = fst (process_user_message w user_input s)"
| "run_call s ClearOrder = clear_order s"

definition run_calls :: "'f assistant \<Rightarrow> 'f call list \<Rightarrow> 'f assistant" where
  "run_calls s calls = foldl run_call s calls"

text \<open>\<open>isinstance(x, dict)\<close>.\<close>

fun isinstance_dict :: "'f json \<Rightarrow> bool" where
  "isinstance_dict (JObj kvs) = True"
| "isinstance_dict _ = False"

text \<open>The invariant of the order: its keys are keys of the menu.\<close>

definition order_within_menu :: "'f assistant \<Rightarrow> bool" where
  "order_within_menu s = (set (map fst (current_order s)) \<subseteq> set (map fst (menu s)))"

section \<open>Surroundings used in the examples\<close>

text \<open>
  An endpoint that answers every request alike, a well-formed completion body around a
  content, a parser given by a table of texts (any other text is not JSON), and an empty
  prompt text.
\<close>

definition constant_post :: "'f http_result \<Rightarrow> 'f request \<Rightarrow> 'f http_result" where
  "constant_post r req = r"

definition completion_body :: "'f json \<Rightarrow> 'f http_result" where
  "completion_body c = Body (JObj [(''choices'', JArr [JObj [(''message'', JObj [(''content'', c)])]])])"

definition table_loads :: "(string \<times> 'f json) list \<Rightarrow> string \<Rightarrow> loads_error + 'f json" where
  "table_loads tbl text = (case map_of tbl text of None \<Rightarrow> Inl JSONDecodeError | Some v \<Rightarrow> Inr v)"

definition empty_prompt :: "(string \<times> 'f number) list \<Rightarrow> (string \<times> 'f json) list \<Rightarrow> string" where
  "empty_prompt mn ord = []"

definition example_world :: "unit http_result \<Rightarrow> (string \<times> unit json) list \<Rightarrow> unit world" where
  "example_world r tbl =
     \<lparr> http_post = constant_post r, json_loads = table_loads tbl, prompt_text = empty_prompt \<rparr>"

definition example_menu :: "(string \<times> unit number) list" where
  "example_menu = [(''Big Mac'', PyInt 5), (''Large Fry'', PyInt 3), (''Coke'', PyInt 2)]"

definition example_assistant :: "(string \<times> unit json) list \<Rightarrow> unit assistant" where
  "example_assistant ord =
     (DriveThroughAssistant ''key'' ''meta-llama/llama-3.2-3b-instruct:free'' example_menu)
       \<lparr>current_order := ord\<rparr>"

text \<open>
  Replies of the model and what \<open>json.loads\<close> makes of them; a text that is not in
  the table, such as \<open>Sure, I added that!\<close>, is not JSON.
\<close>

definition reply_mixed :: string where
  \<open>reply_mixed = ''{"message":"ok","order":{"Big Mac":2,"Pizza":1}}''\<close>

definition reply_bare :: string where
  \<open>reply_bare = ''{"Big Mac":1}''\<close>

definition reply_array :: string where
  \<open>reply_array = ''["Big Mac"]''\<close>

definition reply_order_list :: string where
  \<open>reply_order_list = ''{"message":"ok","order":["Big Mac"]}''\<close>

definition reply_negative :: string where
  \<open>reply_negative = ''{"message":"ok","order":{"Coke":-2,"Big Mac":0}}''\<close>

definition example_table :: "(string \<times> unit json) list" where
  "example_table =
     [(reply_mixed,
         JObj [(''message'', JStr ''ok''),
               (''order'', JObj [(''Big Mac'', JInt 2), (''Pizza'', JInt 1)])]),
      (reply_bare, JObj [(''Big Mac'', JInt 1)]),
      (reply_array, JArr [JStr ''Big Mac'']),
      (reply_order_list, JObj [(''message'', JStr ''ok''), (''order'', JArr [JStr ''Big Mac''])]),
      (reply_negative,
         JObj [(''message'', JStr ''ok''),
               (''order'', JObj [(''Coke'', JInt (- 2)), (''Big Mac'', JInt 0)])])]"

text \<open>The model answers with the given text, fenced as Markdown code.\<close>

definition fenced :: "string \<Rightarrow> string" where
  "fenced text = ''```json'' @ [CHR 0x0A] @ text @ [CHR 0x0A] @ ''```''"

definition answering :: "string \<Rightarrow> unit world" where
  "answering text = example_world (completion_body (JStr text)) example_table"

definition unreachable_endpoint :: "unit world" where
  "unreachable_endpoint = example_world (TransportFailure ''Connection refused'') example_table"

section \<open>The turn, case by case\<close>

lemma process_call_raises:
  "call_model w (append_user u s) = Inl e \<Longrightarrow>
   process_user_message w u s = (append_user u s, [], Inl e)"
  by (simp add: process_user_message_def)

lemma process_order_installed:
  assumes "call_model w (append_user u s) = Inr (JStr t)"
    and "json_loads w (clean_text t) = Inr d"
    and "extract_message_and_order d = (msg, JObj items)"
  shows "process_user_message w u s =
           (s\<lparr>current_order := validate_order (menu s) items,
              history := history s @ [\<lparr>role = ''user'', content = JStr u\<rparr>,
                                      \<lparr>role = ''assistant'', content = msg\<rparr>]\<rparr>,
            [], Inr (validate_order (menu s) items, msg))"
  using assms by (simp add: process_user_message_def append_user_def)

lemma process_not_json:
  assumes "call_model w (append_user u s) = Inr (JStr t)"
    and "json_loads w (clean_text t) = Inl JSONDecodeError"
  shows "process_user_message w u s =
           (s\<lparr>history := history s @
                [\<lparr>role = ''user'', content = JStr u\<rparr>,
                 \<lparr>role = ''assistant'',
                    content = JStr ''Sorry, I had trouble processing that. Please try again.''\<rparr>]\<rparr>,
            [''Error: LLM did not output valid JSON.'', ''Raw output: '' @ t],
            Inr (current_order s, JStr ''Sorry, I had trouble processing that. Please try again.''))"
  using assms by (simp add: process_user_message_def append_user_def json_decode_handler_def)

lemma process_no_items:
  assumes "call_model w (append_user u s) = Inr (JStr t)"
    and "json_loads w (clean_text t) = Inr d"
    and "extract_message_and_order d = (msg, ord)"
    and "\<not> isinstance_dict ord"
  shows "process_user_message w u s =
           (s\<lparr>history := history s @
                [\<lparr>role = ''user'', content = JStr u\<rparr>,
                 \<lparr>role = ''assistant'',
                    content = JStr ''Sorry, I encountered an error. Please try again.''\<rparr>]\<rparr>,
            [''Error processing message: '' @ no_attribute ord ''items''],
            Inr (current_order s, JStr ''Sorry, I encountered an error. Please try again.''))"
  using assms
  by (cases ord) (simp_all add: process_user_message_def append_user_def exception_handler_def)

lemma process_returns_or_raises:
  "call_model w (append_user u s) = Inr r \<Longrightarrow>
   \<exists>ord msg logs.
     process_user_message w u s =
       (s\<lparr>current_order := ord,
          history := history s @ [\<lparr>role = ''user'', content = JStr u\<rparr>,
                                  \<lparr>role = ''assistant'', content = msg\<rparr>]\<rparr>,
        logs, Inr (ord, msg)) \<and>
     (ord = current_order s \<or> (\<exists>items. ord = validate_order (menu s) items))"
  by (auto simp: process_user_message_def append_user_def exception_handler_def
        json_decode_handler_def Let_def
      split: sum.splits json.splits loads_error.splits prod.splits)

section \<open>The examples evaluated\<close>

lemma clean_text_examples:
  "clean_text (fenced reply_mixed) = reply_mixed"
  "clean_text reply_mixed = reply_mixed"
  "clean_text reply_array = reply_array"
  "clean_text reply_order_list = reply_order_list"
  "clean_text reply_negative = reply_negative"
  "clean_text reply_bare = reply_bare"
  "clean_text ''Sure, I added that!'' = ''Sure, I added that!''"
  by (simp_all add: clean_text_def py_strip_def is_space_def fenced_def reply_mixed_def reply_array_def reply_order_list_def reply_negative_def reply_bare_def)

lemma loads_examples:
  "table_loads example_table reply_mixed = Inr (JObj [(''message'', JStr ''ok''),
               (''order'', JObj [(''Big Mac'', JInt 2), (''Pizza'', JInt 1)])])"
  "table_loads example_table reply_array = Inr (JArr [JStr ''Big Mac''])"
  "table_loads example_table reply_order_list = Inr (JObj [(''message'', JStr ''ok''), (''order'', JArr [JStr ''Big Mac''])])"
  "table_loads example_table reply_negative = Inr (JObj [(''message'', JStr ''ok''),
               (''order'', JObj [(''Coke'', JInt (- 2)), (''Big Mac'', JInt 0)])])"
  "table_loads example_table reply_bare = Inr (JObj [(''Big Mac'', JInt 1)])"
  "table_loads example_table ''Sure, I added that!'' = Inl JSONDecodeError"
  by (simp_all add: table_loads_def example_table_def reply_mixed_def reply_array_def reply_order_list_def reply_negative_def reply_bare_def)

lemma call_model_answering: "call_model (answering text) s = Inr (JStr text)"
  by (simp add: call_model_def answering_def example_world_def constant_post_def
      completion_body_def get_response_from_messages_openrouter_def extract_content_def then_do_def)

lemma call_model_unreachable:
  "call_model unreachable_endpoint s = Inl (OpenRouterError ''OpenRouter API error: Connection refused'')"
  by (simp add: call_model_def unreachable_endpoint_def example_world_def constant_post_def
      get_response_from_messages_openrouter_def)

lemma json_loads_answering: "json_loads (answering text) = table_loads example_table"
  by (simp add: answering_def example_world_def)

section \<open>The invariant of the order\<close>

lemma keys_validate_order: "set (map fst (validate_order mn items)) \<subseteq> set (map fst mn)"
  by (force simp: validate_order_def)

lemma process_keeps_menu: "menu (fst (process_user_message w u s)) = menu s"
  by (auto simp: process_user_message_def append_user_def exception_handler_def
        json_decode_handler_def Let_def
      split: sum.splits json.splits loads_error.splits prod.splits)

lemma process_keeps_order_within_menu:
  assumes "order_within_menu s"
  shows "order_within_menu (fst (process_user_message w u s))"
proof (cases "call_model w (append_user u s)")
  case (Inl e)
  then show ?thesis using assms
    by (simp add: process_call_raises order_within_menu_def append_user_def)
next
  case (Inr r)
  from process_returns_or_raises[OF Inr] obtain ord msg logs where
    p: "process_user_message w u s =
       (s\<lparr>current_order := ord,
          history := history s @ [\<lparr>role = ''user'', content = JStr u\<rparr>,
                                  \<lparr>role = ''assistant'', content = msg\<rparr>]\<rparr>,
        logs, Inr (ord, msg))"
    and o: "ord = current_order s \<or> (\<exists>items. ord = validate_order (menu s) items)"
    by blast
  from o show ?thesis
  proof
    assume "ord = current_order s"
    then show ?thesis using assms p by (simp add: order_within_menu_def)
  next
    assume "\<exists>items. ord = validate_order (menu s) items"
    then have "set (map fst ord) \<subseteq> set (map fst (menu s))"
      using keys_validate_order by blast
    then show ?thesis using p by (simp add: order_within_menu_def)
  qed
qed

lemma run_call_invariant:
  assumes "order_within_menu s"
  shows "order_within_menu (run_call s c) \<and> menu (run_call s c) = menu s"
proof (cases c)
  case (ProcessUserMessage w u)
  then show ?thesis using assms
    by (simp add: process_keeps_order_within_menu process_keeps_menu)
next
  case ClearOrder
  then show ?thesis using assms
    by (simp add: clear_order_def order_within_menu_def)
qed

lemma run_calls_invariant:
  "order_within_menu s \<Longrightarrow>
   order_within_menu (run_calls s calls) \<and> menu (run_calls s calls) = menu s"
  unfolding run_calls_def
proof (induction calls arbitrary: s)
  case Nil
  then show ?case by simp
next
  case (Cons c calls)
  from run_call_invariant[OF Cons.prems, of c] Cons.IH[of "run_call s c"]
  show ?case by simp
qed

section \<open>The client and the total\<close>

lemma extract_content_without_choices:
  assumes "map_of kvs ''choices'' = None \<or> map_of kvs ''choices'' = Some (JArr [])"
  shows "extract_content (JObj kvs) = Inl (ValueError ''Unexpected API response format'')"
  using assms
proof
  assume "map_of kvs ''choices'' = None"
  then have "''choices'' \<notin> set (map fst kvs)"
    by (simp add: map_of_eq_None_iff)
  then show ?thesis
    by (simp add: extract_content_def then_do_def)
next
  assume a: "map_of kvs ''choices'' = Some (JArr [])"
  then have "''choices'' \<in> set (map fst kvs)"
    by (metis map_of_eq_None_iff option.distinct(1) set_map)
  with a show ?thesis
    by (simp add: extract_content_def then_do_def)
qed

lemma sum_list_permuted:
  fixes f :: "'a \<Rightarrow> int"
  assumes "mset xs = mset ys"
  shows "sum_list (map f xs) = sum_list (map f ys)"
proof -
  have "mset (map f xs) = mset (map f ys)"
    using assms by (metis mset_map)
  then show ?thesis
    by (metis sum_mset_sum_list)
qed

lemma menu_get_int_prices:
  "menu_get (map (\<lambda>(item, price). (item, PyInt price)) prices) item
     = PyInt (case map_of prices item of None \<Rightarrow> 0 | Some price \<Rightarrow> price)"
  by (induction prices) (auto simp: menu_get_def)

lemma calculate_total_loop_ints:
  assumes "list_all (\<lambda>(item, qty). isinstance_int qty) ord"
  shows "calculate_total_loop (map (\<lambda>(item, price). (item, PyInt price)) prices) (IntTotal t) ord
     = Inr (IntTotal (t + (\<Sum>(item, qty)\<leftarrow>ord.
          (case map_of prices item of None \<Rightarrow> 0 | Some price \<Rightarrow> price) * int_value qty)))"
  using assms
proof (induction ord arbitrary: t)
  case Nil
  then show ?case by simp
next
  case (Cons entry ord)
  obtain item qty where entry: "entry = (item, qty)" by (cases entry)
  with Cons.prems have q: "isinstance_int qty" and rest: "list_all (\<lambda>(item, qty). isinstance_int qty) ord"
    by simp_all
  from q show ?case
    by (cases qty) (simp_all add: entry menu_get_int_prices Cons.IH [OF rest] add.assoc)
qed

section \<open>The claims\<close>

text \<open>
  C1. After construction and after any sequence of \<open>process_user_message\<close> and
  \<open>clear_order\<close> calls, whatever the endpoint and the parser did in each turn, every
  key of the current order is a key of the menu. And when a reply is parsed and its new
  order state is a dictionary, the order installed is that dictionary restricted to the
  keys of the menu.
\<close>

theorem order_keys_are_menu_keys:
  "set (map fst (current_order (run_calls (DriveThroughAssistant k m mn) calls)))
     \<subseteq> set (map fst mn) \<and>
   (call_model w (append_user u s) = Inr (JStr t) \<longrightarrow>
    json_loads w (clean_text t) = Inr d \<longrightarrow>
    snd (extract_message_and_order d) = JObj items \<longrightarrow>
    current_order (fst (process_user_message w u s))
      = filter (\<lambda>(item, qty). item \<in> set (map fst (menu s))) items)"
proof
  have "order_within_menu (DriveThroughAssistant k m mn)"
    by (simp add: order_within_menu_def DriveThroughAssistant_def)
  from run_calls_invariant[OF this, of calls]
  have "order_within_menu (run_calls (DriveThroughAssistant k m mn) calls)"
    and "menu (run_calls (DriveThroughAssistant k m mn) calls) = mn"
    by (simp_all add: DriveThroughAssistant_def)
  then show "set (map fst (current_order (run_calls (DriveThroughAssistant k m mn) calls)))
     \<subseteq> set (map fst mn)"
    unfolding order_within_menu_def by simp
next
  show "call_model w (append_user u s) = Inr (JStr t) \<longrightarrow>
    json_loads w (clean_text t) = Inr d \<longrightarrow>
    snd (extract_message_and_order d) = JObj items \<longrightarrow>
    current_order (fst (process_user_message w u s))
      = filter (\<lambda>(item, qty). item \<in> set (map fst (menu s))) items"
  proof (intro impI)
    assume a: "call_model w (append_user u s) = Inr (JStr t)"
      "json_loads w (clean_text t) = Inr d"
      "snd (extract_message_and_order d) = JObj items"
    from a(3) have "extract_message_and_order d = (fst (extract_message_and_order d), JObj items)"
      by (metis prod.collapse)
    from process_order_installed[OF a(1,2) this]
    show "current_order (fst (process_user_message w u s))
      = filter (\<lambda>(item, qty). item \<in> set (map fst (menu s))) items"
      by (simp add: validate_order_def)
  qed
qed

theorem order_keys_are_menu_keys_witness:
  "set (map fst (current_order (run_calls (DriveThroughAssistant ''key'' ''model'' example_menu)
      [ProcessUserMessage (answering (fenced reply_mixed)) ''two Big Macs and a pizza'',
       ProcessUserMessage unreachable_endpoint ''and a Coke'',
       ClearOrder,
       ProcessUserMessage (answering reply_bare) ''a Big Mac''])))
     \<subseteq> set (map fst example_menu) \<and>
   current_order (fst (process_user_message (answering (fenced reply_mixed))
       ''two Big Macs and a pizza'' (example_assistant [])))
     = [(''Big Mac'', JInt 2)]"
  using order_keys_are_menu_keys [of "''key''" "''model''" example_menu
      "[ProcessUserMessage (answering (fenced reply_mixed)) ''two Big Macs and a pizza'',
       ProcessUserMessage unreachable_endpoint ''and a Coke'',
       ClearOrder,
       ProcessUserMessage (answering reply_bare) ''a Big Mac'']"
      "answering (fenced reply_mixed)" "''two Big Macs and a pizza''" "example_assistant []"
      "fenced reply_mixed"
      "JObj [(''message'', JStr ''ok''),
             (''order'', JObj [(''Big Mac'', JInt 2), (''Pizza'', JInt 1)])]"
      "[(''Big Mac'', JInt 2), (''Pizza'', JInt 1)]"]
  by (simp add: call_model_answering json_loads_answering clean_text_examples loads_examples
      extract_message_and_order_def example_assistant_def DriveThroughAssistant_def example_menu_def)

text \<open>
  C2, amended. When the model call returns, whatever it returned (a text that parses, a
  text that does not, a reply of the wrong shape, a content that is no string),
  \<open>process_user_message\<close> raises nothing: it returns the pair of the current order,
  which is the order before the call or a new order filtered by the menu, and a message.
  When the model call raises, the exception is not caught: it reaches the caller.
\<close>

theorem turn_returns_when_model_answers:
  "(call_model w (append_user u s) = Inr r \<longrightarrow>
      (\<exists>msg. snd (snd (process_user_message w u s))
               = Inr (current_order (fst (process_user_message w u s)), msg)) \<and>
      (current_order (fst (process_user_message w u s)) = current_order s \<or>
       (\<exists>items. current_order (fst (process_user_message w u s))
                  = validate_order (menu s) items))) \<and>
   (call_model w (append_user u s) = Inl e \<longrightarrow>
      snd (snd (process_user_message w u s)) = Inl e)"
proof (intro conjI impI)
  assume "call_model w (append_user u s) = Inl e"
  then show "snd (snd (process_user_message w u s)) = Inl e"
    by (simp add: process_call_raises)
next
  assume a: "call_model w (append_user u s) = Inr r"
  from process_returns_or_raises[OF a] obtain ord msg logs where
    p: "process_user_message w u s =
       (s\<lparr>current_order := ord,
          history := history s @ [\<lparr>role = ''user'', content = JStr u\<rparr>,
                                  \<lparr>role = ''assistant'', content = msg\<rparr>]\<rparr>,
        logs, Inr (ord, msg))"
    and o: "ord = current_order s \<or> (\<exists>items. ord = validate_order (menu s) items)"
    by blast
  from p show "\<exists>msg. snd (snd (process_user_message w u s))
               = Inr (current_order (fst (process_user_message w u s)), msg)"
    by simp
  from p o show "current_order (fst (process_user_message w u s)) = current_order s \<or>
       (\<exists>items. current_order (fst (process_user_message w u s))
                  = validate_order (menu s) items)"
    by simp
qed

theorem turn_returns_when_model_answers_witness:
  "call_model (answering ''Sure, I added that!'')
       (append_user ''a Coke'' (example_assistant [(''Coke'', JInt 1)]))
     = Inr (JStr ''Sure, I added that!'') \<and>
   snd (snd (process_user_message (answering ''Sure, I added that!'') ''a Coke''
       (example_assistant [(''Coke'', JInt 1)])))
     = Inr ([(''Coke'', JInt 1)],
            JStr ''Sorry, I had trouble processing that. Please try again.'') \<and>
   call_model unreachable_endpoint (append_user ''a Coke'' (example_assistant []))
     = Inl (OpenRouterError ''OpenRouter API error: Connection refused'') \<and>
   snd (snd (process_user_message unreachable_endpoint ''a Coke'' (example_assistant [])))
     = Inl (OpenRouterError ''OpenRouter API error: Connection refused'')"
  using turn_returns_when_model_answers [of "answering ''Sure, I added that!''" "''a Coke''"
      "example_assistant [(''Coke'', JInt 1)]" "JStr ''Sure, I added that!''"]
    turn_returns_when_model_answers [of unreachable_endpoint "''a Coke''" "example_assistant []" _
      "OpenRouterError ''OpenRouter API error: Connection refused''"]
  by (simp add: call_model_answering call_model_unreachable process_not_json
      json_loads_answering clean_text_examples loads_examples example_assistant_def)

text \<open>
  The claim C2 as stated fails: with an endpoint that cannot be reached the client raises,
  and the call of the client stands before the \<open>try\<close> of \<open>process_user_message\<close>.
\<close>

theorem process_raises_counterexample:
  "snd (snd (process_user_message unreachable_endpoint ''a Coke'' (example_assistant [])))
     = Inl (OpenRouterError ''OpenRouter API error: Connection refused'')"
  by (simp add: process_call_raises call_model_unreachable)

text \<open>
  C3, amended. In every call of \<open>process_user_message\<close> in which the model call
  returns, whether the turn then succeeds or fails in parsing or processing, the history
  grows by exactly two entries: a user entry with the input text, followed by an
  assistant entry.
\<close>

theorem history_grows_by_two_when_model_answers:
  assumes "call_model w (append_user u s) = Inr r"
  shows "(\<exists>msg. history (fst (process_user_message w u s))
            = history s @ [\<lparr>role = ''user'', content = JStr u\<rparr>,
                           \<lparr>role = ''assistant'', content = msg\<rparr>]) \<and>
         length (history (fst (process_user_message w u s))) = length (history s) + 2"
proof -
  from process_returns_or_raises[OF assms] obtain ord msg logs where
    p: "process_user_message w u s =
       (s\<lparr>current_order := ord,
          history := history s @ [\<lparr>role = ''user'', content = JStr u\<rparr>,
                                  \<lparr>role = ''assistant'', content = msg\<rparr>]\<rparr>,
        logs, Inr (ord, msg))"
    by blast
  then show ?thesis by simp
qed

theorem history_grows_by_two_when_model_answers_witness:
  "call_model (answering reply_array) (append_user ''a Big Mac'' (example_assistant []))
     = Inr (JStr reply_array) \<and>
   history (fst (process_user_message (answering reply_array) ''a Big Mac''
       (example_assistant [])))
     = [\<lparr>role = ''user'', content = JStr ''a Big Mac''\<rparr>,
        \<lparr>role = ''assistant'',
           content = JStr ''Sorry, I encountered an error. Please try again.''\<rparr>] \<and>
   length (history (fst (process_user_message (answering reply_array) ''a Big Mac''
       (example_assistant [])))) = 2"
proof -
  have h: "call_model (answering reply_array) (append_user ''a Big Mac'' (example_assistant []))
     = Inr (JStr reply_array)"
    by (rule call_model_answering)
  have e: "process_user_message (answering reply_array) ''a Big Mac'' (example_assistant [])
     = ((example_assistant [])\<lparr>history :=
           [\<lparr>role = ''user'', content = JStr ''a Big Mac''\<rparr>,
            \<lparr>role = ''assistant'',
               content = JStr ''Sorry, I encountered an error. Please try again.''\<rparr>]\<rparr>,
        [''Error processing message: '' @ no_attribute (JArr [JStr ''Big Mac''] :: unit json) ''items''],
        Inr ([], JStr ''Sorry, I encountered an error. Please try again.''))"
    using process_no_items [OF h, of "JArr [JStr ''Big Mac'']" "JStr ''Order updated.''"
        "JArr [JStr ''Big Mac'']"]
    by (simp add: json_loads_answering clean_text_examples loads_examples
        extract_message_and_order_def example_assistant_def DriveThroughAssistant_def)
  show ?thesis
    using h history_grows_by_two_when_model_answers [OF h] by (simp add: e)
qed

text \<open>
  The claim C3 as stated fails: when the model call raises, the history has grown by the
  user entry alone.
\<close>

theorem history_after_failed_call_counterexample:
  "history (fst (process_user_message unreachable_endpoint ''a Coke'' (example_assistant [])))
     = [\<lparr>role = ''user'', content = JStr ''a Coke''\<rparr>] \<and>
   length (history (fst (process_user_message unreachable_endpoint ''a Coke''
       (example_assistant []))))
     = length (history (example_assistant [])) + 1"
  by (simp add: process_call_raises call_model_unreachable append_user_def
      example_assistant_def DriveThroughAssistant_def)



text \<open>
  C5, amended. For a parsed reply that is a mapping, the new order is the value of its
  \<open>order\<close> key if present and the whole mapping otherwise. When that new order is
  itself a mapping, the display message is the value of the \<open>message\<close> key if present
  and \<open>Order updated.\<close> otherwise, the order is replaced by the new order filtered to
  the keys of the menu, and the message is appended to the history as the assistant entry.
\<close>

theorem mapping_reply_dispatch:
  assumes "call_model w (append_user u s) = Inr (JStr t)"
    and "json_loads w (clean_text t) = Inr (JObj kvs)"
    and "(case map_of kvs ''order'' of Some ord \<Rightarrow> ord | None \<Rightarrow> JObj kvs) = JObj items"
  shows "process_user_message w u s =
           (s\<lparr>current_order := filter (\<lambda>(item, qty). item \<in> set (map fst (menu s))) items,
              history := history s @
                [\<lparr>role = ''user'', content = JStr u\<rparr>,
                 \<lparr>role = ''assistant'',
                    content = (case map_of kvs ''message'' of Some m \<Rightarrow> m
                               | None \<Rightarrow> JStr ''Order updated.'')\<rparr>]\<rparr>,
            [],
            Inr (filter (\<lambda>(item, qty). item \<in> set (map fst (menu s))) items,
                 (case map_of kvs ''message'' of Some m \<Rightarrow> m | None \<Rightarrow> JStr ''Order updated.'')))"
proof -
  have "extract_message_and_order (JObj kvs) =
          ((case map_of kvs ''message'' of Some m \<Rightarrow> m | None \<Rightarrow> JStr ''Order updated.''),
           JObj items)"
    using assms(3) by (simp add: extract_message_and_order_def)
  from process_order_installed [OF assms(1,2) this] show ?thesis
    by (simp add: validate_order_def)
qed

theorem mapping_reply_dispatch_witness:
  "process_user_message (answering reply_mixed) ''two Big Macs and a pizza''
       (example_assistant [(''Coke'', JInt 1)])
     = ((example_assistant [(''Big Mac'', JInt 2)])\<lparr>history :=
          [\<lparr>role = ''user'', content = JStr ''two Big Macs and a pizza''\<rparr>,
           \<lparr>role = ''assistant'', content = JStr ''ok''\<rparr>]\<rparr>,
        [], Inr ([(''Big Mac'', JInt 2)], JStr ''ok'')) \<and>
   process_user_message (answering reply_bare) ''a Big Mac''
       (example_assistant [(''Coke'', JInt 1)])
     = ((example_assistant [(''Big Mac'', JInt 1)])\<lparr>history :=
          [\<lparr>role = ''user'', content = JStr ''a Big Mac''\<rparr>,
           \<lparr>role = ''assistant'', content = JStr ''Order updated.''\<rparr>]\<rparr>,
        [], Inr ([(''Big Mac'', JInt 1)], JStr ''Order updated.''))"
  using mapping_reply_dispatch [of "answering reply_mixed" "''two Big Macs and a pizza''"
      "example_assistant [(''Coke'', JInt 1)]" reply_mixed
      "[(''message'', JStr ''ok''),
        (''order'', JObj [(''Big Mac'', JInt 2), (''Pizza'', JInt 1)])]"
      "[(''Big Mac'', JInt 2), (''Pizza'', JInt 1)]"]
    mapping_reply_dispatch [of "answering reply_bare" "''a Big Mac''"
      "example_assistant [(''Coke'', JInt 1)]" reply_bare
      "[(''Big Mac'', JInt 1)]" "[(''Big Mac'', JInt 1)]"]
  by (simp add: call_model_answering json_loads_answering clean_text_examples loads_examples
      example_assistant_def DriveThroughAssistant_def example_menu_def)

text \<open>
  The claim C5 as stated fails: a mapping whose \<open>order\<close> value is a list has no
  \<open>items\<close>; the second \<open>except\<close> clause answers with its apology instead of the
  reply's message, and the order is not replaced.
\<close>

theorem order_not_a_mapping_counterexample:
  "process_user_message (answering reply_order_list) ''a Big Mac''
       (example_assistant [(''Coke'', JInt 1)])
     = ((example_assistant [(''Coke'', JInt 1)])\<lparr>history :=
          [\<lparr>role = ''user'', content = JStr ''a Big Mac''\<rparr>,
           \<lparr>role = ''assistant'',
              content = JStr ''Sorry, I encountered an error. Please try again.''\<rparr>]\<rparr>,
        [''Error processing message: '' @ no_attribute (JArr [JStr ''Big Mac''] :: unit json) ''items''],
        Inr ([(''Coke'', JInt 1)], JStr ''Sorry, I encountered an error. Please try again.''))"
  using process_no_items [of "answering reply_order_list" "''a Big Mac''"
      "example_assistant [(''Coke'', JInt 1)]" reply_order_list
      "JObj [(''message'', JStr ''ok''), (''order'', JArr [JStr ''Big Mac''])]"
      "JStr ''ok''" "JArr [JStr ''Big Mac'']"]
  by (simp add: call_model_answering json_loads_answering clean_text_examples loads_examples
      extract_message_and_order_def example_assistant_def DriveThroughAssistant_def)

text \<open>
  C6, amended. For a parsed reply whose top-level value is not a mapping, the value is
  taken as the new order state, the filtering step fails on it (it has no \<open>items\<close>),
  and the second \<open>except\<close> clause leaves the order as it was, prints the error,
  appends the apology \<open>Sorry, I encountered an error. Please try again.\<close> to the
  history and returns it with the unchanged order.
\<close>

theorem non_mapping_reply_is_an_error:
  assumes "call_model w (append_user u s) = Inr (JStr t)"
    and "json_loads w (clean_text t) = Inr d"
    and "\<not> isinstance_dict d"
  shows "process_user_message w u s =
           (s\<lparr>history := history s @
                [\<lparr>role = ''user'', content = JStr u\<rparr>,
                 \<lparr>role = ''assistant'',
                    content = JStr ''Sorry, I encountered an error. Please try again.''\<rparr>]\<rparr>,
            [''Error processing message: '' @ no_attribute d ''items''],
            Inr (current_order s, JStr ''Sorry, I encountered an error. Please try again.''))"
proof -
  have "extract_message_and_order d = (JStr ''Order updated.'', d)"
    using assms(3) by (cases d) (simp_all add: extract_message_and_order_def)
  from process_no_items [OF assms(1,2) this assms(3)] show ?thesis .
qed

theorem non_mapping_reply_is_an_error_witness:
  "\<not> isinstance_dict (JArr [JStr ''Big Mac''] :: unit json) \<and>
   snd (snd (process_user_message (answering reply_array) ''a Big Mac''
       (example_assistant [(''Coke'', JInt 1)])))
     = Inr ([(''Coke'', JInt 1)], JStr ''Sorry, I encountered an error. Please try again.'') \<and>
   current_order (fst (process_user_message (answering reply_array) ''a Big Mac''
       (example_assistant [(''Coke'', JInt 1)]))) = [(''Coke'', JInt 1)]"
  using non_mapping_reply_is_an_error [of "answering reply_array" "''a Big Mac''"
      "example_assistant [(''Coke'', JInt 1)]" reply_array "JArr [JStr ''Big Mac'']"]
  by (simp add: call_model_answering json_loads_answering clean_text_examples loads_examples
      example_assistant_def DriveThroughAssistant_def)

text \<open>
  The claim C6 as stated fails: on a reply that is a JSON array the order is not
  replaced, and the message returned is not \<open>Order updated.\<close>
\<close>

theorem non_mapping_reply_counterexample:
  "process_user_message (answering reply_array) ''a Big Mac''
       (example_assistant [(''Coke'', JInt 1)])
     = ((example_assistant [(''Coke'', JInt 1)])\<lparr>history :=
          [\<lparr>role = ''user'', content = JStr ''a Big Mac''\<rparr>,
           \<lparr>role = ''assistant'',
              content = JStr ''Sorry, I encountered an error. Please try again.''\<rparr>]\<rparr>,
        [''Error processing message: '' @ no_attribute (JArr [JStr ''Big Mac''] :: unit json) ''items''],
        Inr ([(''Coke'', JInt 1)], JStr ''Sorry, I encountered an error. Please try again.''))"
  using process_no_items [of "answering reply_array" "''a Big Mac''"
      "example_assistant [(''Coke'', JInt 1)]" reply_array
      "JArr [JStr ''Big Mac'']" "JStr ''Order updated.''" "JArr [JStr ''Big Mac'']"]
  by (simp add: call_model_answering json_loads_answering clean_text_examples loads_examples
      extract_message_and_order_def example_assistant_def DriveThroughAssistant_def)

text \<open>
  C7, amended. A transport failure, a status that is not a success and a body that is not
  JSON are raised as one kind of error, the plain exception with the text
  \<open>OpenRouter API error:\<close> followed by the detail. A decoded body that is a mapping
  without the key \<open>choices\<close>, or with an empty list of choices, raises a
  \<open>ValueError\<close> with the text \<open>Unexpected API response format\<close>, which is not
  turned into the former.
\<close>

theorem client_error_kinds:
  "(post (openrouter_request k m msgs temp) = TransportFailure e \<or>
    post (openrouter_request k m msgs temp) = StatusFailure e \<or>
    post (openrouter_request k m msgs temp) = BodyFailure e \<longrightarrow>
      get_response_from_messages_openrouter post k m msgs temp
        = Inl (OpenRouterError (''OpenRouter API error: '' @ e))) \<and>
   (post (openrouter_request k m msgs temp) = Body (JObj kvs) \<and>
    (map_of kvs ''choices'' = None \<or> map_of kvs ''choices'' = Some (JArr [])) \<longrightarrow>
      get_response_from_messages_openrouter post k m msgs temp
        = Inl (ValueError ''Unexpected API response format''))"
  by (auto simp: get_response_from_messages_openrouter_def extract_content_without_choices)

theorem client_error_kinds_witness:
  "get_response_from_messages_openrouter
       (constant_post (TransportFailure ''Connection refused'' :: unit http_result))
       ''key'' ''model'' [] (Decimal 1 1)
     = Inl (OpenRouterError ''OpenRouter API error: Connection refused'') \<and>
   get_response_from_messages_openrouter
       (constant_post (StatusFailure ''401 Client Error: Unauthorized'' :: unit http_result))
       ''key'' ''model'' [] (Decimal 1 1)
     = Inl (OpenRouterError ''OpenRouter API error: 401 Client Error: Unauthorized'') \<and>
   get_response_from_messages_openrouter
       (constant_post (Body (JObj [(''error'', JStr ''rate limited'')]) :: unit http_result))
       ''key'' ''model'' [] (Decimal 1 1)
     = Inl (ValueError ''Unexpected API response format'') \<and>
   get_response_from_messages_openrouter
       (constant_post (Body (JObj [(''choices'', JArr [])]) :: unit http_result))
       ''key'' ''model'' [] (Decimal 1 1)
     = Inl (ValueError ''Unexpected API response format'')"
  using client_error_kinds [of "constant_post (TransportFailure ''Connection refused'')"
      "''key''" "''model''" "[] :: unit message list" "Decimal 1 1" "''Connection refused''" "[]"]
    client_error_kinds [of "constant_post (StatusFailure ''401 Client Error: Unauthorized'')"
      "''key''" "''model''" "[] :: unit message list" "Decimal 1 1"
      "''401 Client Error: Unauthorized''" "[]"]
    client_error_kinds [of "constant_post (Body (JObj [(''error'', JStr ''rate limited'')]))"
      "''key''" "''model''" "[] :: unit message list" "Decimal 1 1" "[]"
      "[(''error'', JStr ''rate limited'')]"]
    client_error_kinds [of "constant_post (Body (JObj [(''choices'', JArr [])]))"
      "''key''" "''model''" "[] :: unit message list" "Decimal 1 1" "[]"
      "[(''choices'', JArr [])]"]
  by (simp add: constant_post_def)

text \<open>
  The claim C7 as stated fails: a body without choices and a transport failure raise
  errors of two kinds.
\<close>

theorem missing_choices_counterexample:
  "get_response_from_messages_openrouter (constant_post (Body (JObj []) :: unit http_result))
       ''key'' ''model'' [] (Decimal 1 1)
     = Inl (ValueError ''Unexpected API response format'') \<and>
   get_response_from_messages_openrouter
       (constant_post (TransportFailure ''Connection refused'' :: unit http_result))
       ''key'' ''model'' [] (Decimal 1 1)
     = Inl (OpenRouterError ''OpenRouter API error: Connection refused'')"
  by (simp add: get_response_from_messages_openrouter_def constant_post_def
      extract_content_def then_do_def)

text \<open>
  C8, amended. For a menu with integer prices and an order whose quantities are
  integers (a boolean counting as 1 or 0), \<open>calculate_total\<close> returns the sum over the
  entries of the order of the quantity times the price of the item in the menu, the
  price being 0 for an item the menu does not have. It returns a value and no state; and
  an order with the same entries in a different iteration order has the same total.
\<close>

theorem calculate_total_is_the_sum:
  assumes "menu s = map (\<lambda>(item, price). (item, PyInt price)) prices"
    and "list_all (\<lambda>(item, qty). isinstance_int qty) (current_order s)"
  shows "calculate_total s
           = Inr (IntTotal (\<Sum>(item, qty)\<leftarrow>current_order s.
               (case map_of prices item of None \<Rightarrow> 0 | Some price \<Rightarrow> price) * int_value qty)) \<and>
         (menu s' = menu s \<and> mset (current_order s') = mset (current_order s) \<longrightarrow>
            calculate_total s' = calculate_total s)"
proof
  show first: "calculate_total s
           = Inr (IntTotal (\<Sum>(item, qty)\<leftarrow>current_order s.
               (case map_of prices item of None \<Rightarrow> 0 | Some price \<Rightarrow> price) * int_value qty))"
    using calculate_total_loop_ints [OF assms(2), of prices 0]
    by (simp add: calculate_total_def assms(1))
  show "menu s' = menu s \<and> mset (current_order s') = mset (current_order s) \<longrightarrow>
            calculate_total s' = calculate_total s"
  proof
    assume a: "menu s' = menu s \<and> mset (current_order s') = mset (current_order s)"
    then have "set (current_order s') = set (current_order s)"
      by (metis mset_eq_setD)
    with assms(2) have ints: "list_all (\<lambda>(item, qty). isinstance_int qty) (current_order s')"
      by (simp add: list_all_iff)
    have "calculate_total s'
           = Inr (IntTotal (\<Sum>(item, qty)\<leftarrow>current_order s'.
               (case map_of prices item of None \<Rightarrow> 0 | Some price \<Rightarrow> price) * int_value qty))"
      using calculate_total_loop_ints [OF ints, of prices 0] a
      by (simp add: calculate_total_def assms(1))
    also have "\<dots> = calculate_total s"
      using a sum_list_permuted [of "current_order s'" "current_order s"]
      by (simp add: first)
    finally show "calculate_total s' = calculate_total s" .
  qed
qed

theorem calculate_total_is_the_sum_witness:
  "menu (example_assistant [(''Big Mac'', JInt 2), (''Coke'', JInt 1)])
     = map (\<lambda>(item, price). (item, PyInt price)) [(''Big Mac'', 5), (''Large Fry'', 3), (''Coke'', 2)] \<and>
   list_all (\<lambda>(item, qty). isinstance_int qty)
     (current_order (example_assistant [(''Big Mac'', JInt 2), (''Coke'', JInt 1)])) \<and>
   calculate_total (example_assistant [(''Big Mac'', JInt 2), (''Coke'', JInt 1)])
     = Inr (IntTotal 12) \<and>
   mset (current_order (example_assistant [(''Coke'', JInt 1), (''Big Mac'', JInt 2)]))
     = mset (current_order (example_assistant [(''Big Mac'', JInt 2), (''Coke'', JInt 1)])) \<and>
   calculate_total (example_assistant [(''Coke'', JInt 1), (''Big Mac'', JInt 2)])
     = Inr (IntTotal 12) \<and>
   calculate_total (example_assistant
       [(''Pizza'', JInt 4), (''Large Fry'', JBool True), (''Coke'', JInt (- 1))])
     = Inr (IntTotal 1)"
  using calculate_total_is_the_sum [where s = "example_assistant [(''Big Mac'', JInt 2), (''Coke'', JInt 1)]"
      and prices = "[(''Big Mac'', 5), (''Large Fry'', 3), (''Coke'', 2)]"
      and s' = "example_assistant [(''Coke'', JInt 1), (''Big Mac'', JInt 2)]"]
    calculate_total_is_the_sum [where s = "example_assistant
         [(''Pizza'', JInt 4), (''Large Fry'', JBool True), (''Coke'', JInt (- 1))]"
      and prices = "[(''Big Mac'', 5), (''Large Fry'', 3), (''Coke'', 2)]"
      and s' = "example_assistant
         [(''Pizza'', JInt 4), (''Large Fry'', JBool True), (''Coke'', JInt (- 1))]"]
  by (simp add: example_assistant_def DriveThroughAssistant_def example_menu_def)

text \<open>
  The claim C8 as stated, for every order, fails. A quantity \<open>null\<close>, which a reply of
  the model can install, makes \<open>calculate_total\<close> raise \<open>TypeError\<close> instead of
  returning a sum. And the result depends on the iteration order once a float quantity
  stands beside large integers: with quantities \<open>3 * 10 ^ 400\<close>, \<open>- 5 * 10 ^ 400\<close>
  and a float, the integer products 15 and minus 15 times \<open>10 ^ 400\<close> cancel before the
  float is added and a float is returned, while with the float first the next integer
  product cannot be converted and \<open>OverflowError\<close> is raised.
\<close>

theorem calculate_total_counterexample:
  "calculate_total (example_assistant [(''Coke'', JNull)]) = Inl TypeError \<and>
   calculate_total (example_assistant
       [(''Big Mac'', JInt (3 * 10 ^ 400)), (''Large Fry'', JInt (- 5 * 10 ^ 400)),
        (''Coke'', JFloat ())])
     = Inr Floating \<and>
   calculate_total (example_assistant
       [(''Coke'', JFloat ()),
        (''Big Mac'', JInt (3 * 10 ^ 400)), (''Large Fry'', JInt (- 5 * 10 ^ 400))])
     = Inl OverflowError"
  by (simp add: calculate_total_def example_assistant_def DriveThroughAssistant_def
      example_menu_def menu_get_def float_convertible_def)

text \<open>
  C9. \<open>clear_order\<close> empties the order and the history and changes nothing else: the
  menu, the API key and the model identifier are as before, and the next model call is
  made with them and with the temperature 0.1, which is a literal of the call and no part
  of the state. Clearing twice gives the same state as clearing once.
\<close>

theorem clear_order_resets_order_and_history:
  "current_order (clear_order s) = [] \<and>
   history (clear_order s) = [] \<and>
   menu (clear_order s) = menu s \<and>
   api_key (clear_order s) = api_key s \<and>
   model (clear_order s) = model s \<and>
   assistant.more (clear_order s) = assistant.more s \<and>
   call_model w (clear_order s)
     = get_response_from_messages_openrouter (http_post w) (api_key s) (model s)
         [\<lparr>role = ''system'', content = JStr (prompt_text w (menu s) [])\<rparr>] (Decimal 1 1) \<and>
   clear_order (clear_order s) = clear_order s"
  by (simp add: clear_order_def call_model_def get_system_prompt_def last_n_def)

text \<open>
  C10. The filtering step keeps the quantities as the model returned them: an entry is in
  the installed order exactly when it is an entry of the parsed order mapping and its
  item is a key of the menu. No check of sign or integrality is made, so a zero or a
  negative quantity of a menu item is installed as it is.
\<close>

theorem quantities_installed_verbatim:
  assumes "call_model w (append_user u s) = Inr (JStr t)"
    and "json_loads w (clean_text t) = Inr d"
    and "snd (extract_message_and_order d) = JObj items"
  shows "(item, qty) \<in> set (current_order (fst (process_user_message w u s)))
           \<longleftrightarrow> (item, qty) \<in> set items \<and> item \<in> set (map fst (menu s))"
proof -
  from assms(3) have "extract_message_and_order d = (fst (extract_message_and_order d), JObj items)"
    by (metis prod.collapse)
  from process_order_installed [OF assms(1,2) this] show ?thesis
    by (auto simp: validate_order_def)
qed

theorem quantities_installed_verbatim_witness:
  "current_order (fst (process_user_message (answering reply_negative) ''minus two Cokes''
       (example_assistant [(''Coke'', JInt 1)])))
     = [(''Coke'', JInt (- 2)), (''Big Mac'', JInt 0)] \<and>
   (''Coke'', JInt (- 2)) \<in> set (current_order (fst (process_user_message
       (answering reply_negative) ''minus two Cokes'' (example_assistant [(''Coke'', JInt 1)])))) \<and>
   (''Big Mac'', JInt 0) \<in> set (current_order (fst (process_user_message
       (answering reply_negative) ''minus two Cokes'' (example_assistant [(''Coke'', JInt 1)]))))"
proof -
  have h1: "call_model (answering reply_negative)
      (append_user ''minus two Cokes'' (example_assistant [(''Coke'', JInt 1)]))
        = Inr (JStr reply_negative)"
    by (rule call_model_answering)
  have h2: "json_loads (answering reply_negative) (clean_text reply_negative)
        = Inr (JObj [(''message'', JStr ''ok''),
               (''order'', JObj [(''Coke'', JInt (- 2)), (''Big Mac'', JInt 0)])])"
    by (simp add: json_loads_answering clean_text_examples loads_examples)
  have h3: "snd (extract_message_and_order (JObj [(''message'', JStr ''ok''),
               (''order'', JObj [(''Coke'', JInt (- 2)), (''Big Mac'', JInt 0)])] :: unit json))
        = JObj [(''Coke'', JInt (- 2)), (''Big Mac'', JInt 0)]"
    by (simp add: extract_message_and_order_def)
  have e: "current_order (fst (process_user_message (answering reply_negative) ''minus two Cokes''
       (example_assistant [(''Coke'', JInt 1)])))
     = [(''Coke'', JInt (- 2)), (''Big Mac'', JInt 0)]"
    using process_order_installed [OF h1 h2, of "JStr ''ok''"
        "[(''Coke'', JInt (- 2)), (''Big Mac'', JInt 0)]"]
    by (simp add: extract_message_and_order_def validate_order_def example_assistant_def
        DriveThroughAssistant_def example_menu_def)
  show ?thesis
    using quantities_installed_verbatim [OF h1 h2 h3, of "''Coke''" "JInt (- 2)"]
      quantities_installed_verbatim [OF h1 h2 h3, of "''Big Mac''" "JInt 0"]
    by (simp add: e)
qed

end
